theory Spec2Isabelle
  imports Main
begin

section \<open>Connect plugin manager and self-update: a shallow embedding\<close>

text \<open>
  The theory embeds the decision logic of four source files:
  \<^item> \<^verbatim>\<open>ftrack_connect/plugin_manager/__init__.py\<close> (class \<^verbatim>\<open>PluginManager\<close>),
  \<^item> \<^verbatim>\<open>ftrack_connect/ui/update_dialog.py\<close> (download and release notes),
  \<^item> \<^verbatim>\<open>ftrack_connect/__main__.py\<close> (\<^verbatim>\<open>main_connect\<close>), and
  \<^item> \<^verbatim>\<open>connect-mana-location/resource/hook/connect_plugin_hook.py\<close> (\<^verbatim>\<open>append_path\<close>).

  Qt widgets are not modelled. What a widget shows, what a signal emits and what a logger
  writes is recorded as an \<open>event\<close> in a trace, in the order the code produces it. What the
  user or the environment decides (the button pressed in a message box, whether the plugin
  processor raises, which plugins were fetched) is an explicit argument.
\<close>

subsection \<open>Data model of the plugin manager\<close>

text \<open>
  Modelled from the spec: \<^verbatim>\<open>STATUSES\<close> is declared in
  \<^verbatim>\<open>ftrack_connect/plugin_manager/processor.py\<close>, which is not among the sources. The spec
  names the four statuses; the code under study compares against \<^verbatim>\<open>NEW\<close>, \<^verbatim>\<open>UPDATE\<close> and
  \<^verbatim>\<open>DOWNLOAD\<close> only.
\<close>

datatype STATUSES = NEW | UPDATE | DOWNLOAD | UP_TO_DATE

text \<open>
  One row of \<^verbatim>\<open>plugin_model\<close>: the data roles the code reads
  (\<^verbatim>\<open>PLUGIN_STATUS\<close>, \<^verbatim>\<open>PLUGIN_NAME\<close>, \<^verbatim>\<open>PLUGIN_VERSION\<close>) and the check state.
\<close>

record plugin_item =
  plugin_status :: STATUSES
  plugin_name :: string
  plugin_version :: string
  checked :: bool

text \<open>
  One entry of \<^verbatim>\<open>self._installed_plugins\<close>, a dictionary in the source. The key
  \<^verbatim>\<open>'version'\<close> is read with \<^verbatim>\<open>.get('version', '0.0.0')\<close>, so it may be absent.
\<close>

record installed_plugin =
  name :: string
  version :: "string option"
  incompatible :: bool
  deprecated :: bool

subsection \<open>Counting and selecting the plugins to process\<close>

text \<open>
  \<^verbatim>\<open>_count_plugins_to_process\<close>: the loop over the rows of the model, with the counter as
  accumulator and the source's \<^verbatim>\<open>if / elif / elif\<close> chain.
\<close>

fun count_loop :: "bool \<Rightarrow> bool \<Rightarrow> plugin_item list \<Rightarrow> nat \<Rightarrow> nat" where
  "count_loop do_install do_update [] count = count"
| "count_loop do_install do_update (item # rest) count =
     count_loop do_install do_update rest
       (if plugin_status item = NEW \<and> do_install then count + 1
        else if plugin_status item = UPDATE \<and> do_update then count + 1
        else if plugin_status item = DOWNLOAD then (if do_install then count + 1 else count)
        else count)"

definition count_plugins_to_process :: "bool \<Rightarrow> bool \<Rightarrow> plugin_item list \<Rightarrow> nat" where
  "count_plugins_to_process do_install do_update model = count_loop do_install do_update model 0"

text \<open>
  The inner loop of the \<^verbatim>\<open>UPDATE\<close> branch: the first installed plugin of the same name
  gives the version shown; without one the text stays \<^verbatim>\<open>v<available>\<close>.
\<close>

fun update_version_info :: "installed_plugin list \<Rightarrow> string \<Rightarrow> string \<Rightarrow> string \<Rightarrow> string" where
  "update_version_info [] pname available version_info = version_info"
| "update_version_info (p # ps) pname available version_info =
     (if name p = pname
      then (case version p of None \<Rightarrow> ''0.0.0'' | Some v \<Rightarrow> v) @ '' -> '' @ available
      else update_version_info ps pname available version_info)"

text \<open>An element of \<^verbatim>\<open>plugins_to_process\<close>: (item, action, plugin name, version info).\<close>

type_synonym batch_entry = "plugin_item \<times> string \<times> string \<times> string"

text \<open>
  The first loop of \<^verbatim>\<open>_on_auto_install_update_callback\<close>, which builds
  \<^verbatim>\<open>plugins_to_process\<close> by appending.
\<close>

fun select_loop ::
  "installed_plugin list \<Rightarrow> bool \<Rightarrow> bool \<Rightarrow> plugin_item list \<Rightarrow> batch_entry list \<Rightarrow> batch_entry list"
where
  "select_loop installed do_install do_update [] acc = acc"
| "select_loop installed do_install do_update (item # rest) acc =
     (let version_info = ''v'' @ plugin_version item in
      select_loop installed do_install do_update rest
        (if plugin_status item = NEW \<and> do_install
         then acc @ [(item, ''Installing'', plugin_name item, version_info)]
         else if plugin_status item = UPDATE \<and> do_update
         then acc @ [(item, ''Updating'', plugin_name item,
                      update_version_info installed (plugin_name item) (plugin_version item)
                        version_info)]
         else if plugin_status item = DOWNLOAD
         then (if do_install
               then acc @ [(item, ''Installing'', plugin_name item, version_info)]
               else acc)
         else acc))"

definition plugins_to_process ::
  "installed_plugin list \<Rightarrow> bool \<Rightarrow> bool \<Rightarrow> plugin_item list \<Rightarrow> batch_entry list"
where
  "plugins_to_process installed do_install do_update model =
     select_loop installed do_install do_update model []"

text \<open>The selection in the words of the claim: which statuses are taken under which flag.\<close>

fun selected :: "bool \<Rightarrow> bool \<Rightarrow> STATUSES \<Rightarrow> bool" where
  "selected do_install do_update NEW = do_install"
| "selected do_install do_update UPDATE = do_update"
| "selected do_install do_update DOWNLOAD = do_install"
| "selected do_install do_update UP_TO_DATE = False"

subsection \<open>Events, the processor and the widget state\<close>

text \<open>
  \<^verbatim>\<open>PluginProcessor.process(item)\<close> is not among the sources. It touches the file system
  and the network, and from the caller's side it either returns or raises; which of the two
  is an argument of the model, a function of the item. \<open>Raises\<close> stands for an instance of
  \<^verbatim>\<open>Exception\<close> (an I/O, archive or network error) and carries its text.
\<close>

datatype process_result = Returns | Raises string

text \<open>The buttons a \<^verbatim>\<open>QMessageBox\<close> of the plugin manager can return.\<close>

datatype StandardButton = Yes | No | Cancel

datatype conflict_kind = Incompatible | Deprecated

text \<open>
  What the plugin manager does that can be observed: signals emitted, dialogs shown, calls
  of the processor that returned, and the log lines that report an outcome.
  \<^item> \<open>Processed\<close>: \<^verbatim>\<open>self._plugin_processor.process(item)\<close> returned;
  \<^item> \<open>Progress\<close>: \<^verbatim>\<open>on_plugin_processed_callback(index, total, action, info)\<close>;
  \<^item> \<open>EntryFailed\<close>: \<^verbatim>\<open>logger.error('Failed to ... plugin ...')\<close> of the auto path;
  \<^item> \<open>Summary\<close>: \<^verbatim>\<open>logger.info('Successfully processed n/total plugins')\<close>;
  \<^item> \<open>RestartPrompt\<close>: the message box of \<^verbatim>\<open>_show_auto_install_restart_message\<close>;
  \<^item> the others are the signals and log lines of the same name.
\<close>

datatype event =
    RefreshStarted
  | RefreshDone
  | ShowWelcome nat
  | AutoProcessing nat
  | NoAutoPlugins
  | NothingToProcess
  | Processed plugin_item
  | Progress nat nat string string
  | EntryFailed plugin_item string
  | Summary nat nat
  | RestartPrompt nat nat "(plugin_item \<times> string \<times> string \<times> string) list"
  | RequestConnectRestart
  | ConflictPrompt conflict_kind "string list"
  | ApplyChanges "string list"
  | InstallationStarted
  | Archived string
  | InstallationInProgress plugin_item
  | InstallationDone
  | UsageTracked "plugin_item list"
  | InstallationFailed string

text \<open>
  The fields of \<^verbatim>\<open>PluginManager\<close> that the modelled methods read or write.
  \<^verbatim>\<open>_installed_plugins\<close> is \<^verbatim>\<open>None\<close> until the first fetch callback; the methods that
  read it run after that callback, and the model starts from the empty list.
\<close>

record plugin_manager =
  initialised :: bool
  installed_plugins :: "installed_plugin list"
  plugin_model :: "plugin_item list"
  plugins_to_install :: "plugin_item list"
  counter :: nat

definition init_plugin_manager :: plugin_manager where
  "init_plugin_manager =
     \<lparr>initialised = False, installed_plugins = [], plugin_model = [],
      plugins_to_install = [], counter = 0\<rparr>"

definition reset_plugin_list :: "plugin_manager \<Rightarrow> plugin_manager" where
  "reset_plugin_list pm = pm\<lparr>counter := 0, plugins_to_install := []\<rparr>"

text \<open>\<^verbatim>\<open>_enable_apply_button\<close>: the checked rows become \<^verbatim>\<open>_plugins_to_install\<close>.\<close>

definition enable_apply_button :: "plugin_manager \<Rightarrow> plugin_manager" where
  "enable_apply_button pm = pm\<lparr>plugins_to_install := filter checked (plugin_model pm)\<rparr>"

subsection \<open>The auto-processing batch\<close>

text \<open>
  The second loop of \<^verbatim>\<open>_on_auto_install_update_callback\<close>. The counter is incremented
  first, inside the \<^verbatim>\<open>try\<close>; an exception of \<^verbatim>\<open>process\<close> is caught by the
  \<^verbatim>\<open>except Exception\<close> of the same iteration, logged, and the loop continues. The progress
  callback passed by both callers only logs. The result is the final \<^verbatim>\<open>processed_count\<close>
  and the events.
\<close>

fun process_entries ::
  "(plugin_item \<Rightarrow> process_result) \<Rightarrow> nat \<Rightarrow> batch_entry list \<Rightarrow> nat \<Rightarrow> nat \<times> event list"
where
  "process_entries process total_to_process [] processed_count = (processed_count, [])"
| "process_entries process total_to_process ((item, action, pname, version_info) # rest)
     processed_count =
     (let processed_count = processed_count + 1;
          now = (case process item of
                   Returns \<Rightarrow>
                     [Processed item,
                      Progress processed_count total_to_process action
                        (pname @ '' ('' @ version_info @ '')'')]
                 | Raises msg \<Rightarrow> [EntryFailed item msg]);
          (final_count, later) =
            process_entries process total_to_process rest processed_count
      in (final_count, now @ later))"

text \<open>\<^verbatim>\<open>_show_auto_install_restart_message\<close>: the box has the buttons Yes and No.\<close>

definition show_auto_install_restart_message ::
  "nat \<Rightarrow> nat \<Rightarrow> batch_entry list \<Rightarrow> StandardButton \<Rightarrow> event list"
where
  "show_auto_install_restart_message processed_count total_count plugins_processed answer =
     RestartPrompt processed_count total_count plugins_processed #
     (if answer = Yes then [RequestConnectRestart] else [])"

definition on_auto_install_update_callback ::
  "(plugin_item \<Rightarrow> process_result) \<Rightarrow> StandardButton \<Rightarrow> bool \<Rightarrow> bool \<Rightarrow> plugin_manager
     \<Rightarrow> plugin_manager \<times> event list"
where
  "on_auto_install_update_callback process answer do_install do_update pm =
     (let to_process =
            plugins_to_process (installed_plugins pm) do_install do_update (plugin_model pm);
          total_to_process = length to_process
      in if total_to_process = 0 then (pm, [NothingToProcess])
         else
           (let (processed_count, evs) = process_entries process total_to_process to_process 0
            in (reset_plugin_list pm,
                evs @ [Summary processed_count total_to_process] @
                (if processed_count > 0
                 then show_auto_install_restart_message processed_count total_to_process
                        to_process answer
                 else []))))"

text \<open>
  The value of the local variable \<^verbatim>\<open>processed_count\<close> when
  \<^verbatim>\<open>_on_auto_install_update_callback\<close> returns: 0 at the early return, the loop's count
  otherwise.
\<close>

definition final_processed_count ::
  "(plugin_item \<Rightarrow> process_result) \<Rightarrow> bool \<Rightarrow> bool \<Rightarrow> plugin_manager \<Rightarrow> nat"
where
  "final_processed_count process do_install do_update pm =
     (let to_process =
            plugins_to_process (installed_plugins pm) do_install do_update (plugin_model pm)
      in if length to_process = 0 then 0
         else fst (process_entries process (length to_process) to_process 0))"

subsection \<open>The gate and \<^verbatim>\<open>refresh\<close>\<close>

text \<open>
  \<^verbatim>\<open>_check_and_run_auto_operations\<close>. Both policy strings are the constant
  \<^verbatim>\<open>"true"\<close> in the source; the membership tests are kept as written.
\<close>

definition check_and_run_auto_operations ::
  "(plugin_item \<Rightarrow> process_result) \<Rightarrow> StandardButton \<Rightarrow> plugin_manager
     \<Rightarrow> plugin_manager \<times> event list"
where
  "check_and_run_auto_operations process answer pm =
     (if initialised pm then (pm, [])
      else
        (let auto_install = ''true'';
             auto_update = ''true'';
             do_install = (auto_install \<in> set [''true'', ''1'', ''yes'']);
             do_update = (auto_update \<in> set [''true'', ''1'', ''yes'']);
             (pm1, evs) =
               (if do_install \<or> do_update
                then (let total_to_process =
                            count_plugins_to_process do_install do_update (plugin_model pm)
                      in if total_to_process > 0
                         then (let (pm', evs') =
                                     on_auto_install_update_callback process answer
                                       do_install do_update pm
                               in (pm', AutoProcessing total_to_process # evs'))
                         else (pm, [NoAutoPlugins]))
                else (pm, []))
         in (pm1\<lparr>initialised := True\<rparr>, evs)))"

text \<open>
  What one refresh pass gets from outside the class: the plugins Connect hands to the fetch
  callback, the rows the list widget holds after \<^verbatim>\<open>populate_installed_plugins\<close> and
  \<^verbatim>\<open>populate_download_plugins\<close>, its \<^verbatim>\<open>downloadable_plugin_count\<close>, the behaviour of the
  processor, the user's answer to a restart prompt, the environment variable
  \<^verbatim>\<open>FTRACK_CONNECT_DISABLE_STARTUP_WIDGET\<close>, and when the slot connected to
  \<^verbatim>\<open>fetchPlugins\<close> calls the callback: inside \<^verbatim>\<open>emit\<close> (\<open>Direct\<close>) or after \<^verbatim>\<open>refresh\<close>
  has returned (\<open>Queued\<close>).
\<close>

datatype delivery = Direct | Queued

record refresh_input =
  fetched :: "installed_plugin list"
  populated :: "plugin_item list"
  downloadable_plugin_count :: nat
  processor :: "plugin_item \<Rightarrow> process_result"
  restart_answer :: StandardButton
  disable_startup_widget :: bool
  slot_delivery :: delivery

definition on_plugin_fetch_callback ::
  "refresh_input \<Rightarrow> plugin_manager \<Rightarrow> plugin_manager \<times> event list"
where
  "on_plugin_fetch_callback inp pm =
     (let pm1 = pm\<lparr>installed_plugins := fetched inp, plugin_model := populated inp\<rparr>;
          (pm2, evs) = check_and_run_auto_operations (processor inp) (restart_answer inp) pm1
      in (pm2,
          evs @
          (if \<not> initialised pm2 \<and> length (fetched inp) = 0
           then (if \<not> disable_startup_widget inp
                 then [ShowWelcome (downloadable_plugin_count inp)] else [])
           else [])))"

text \<open>
  \<^verbatim>\<open>refresh\<close>: emit \<^verbatim>\<open>refresh_started\<close>, emit \<^verbatim>\<open>fetchPlugins\<close> with the callback,
  \<^verbatim>\<open>_enable_apply_button\<close>, \<^verbatim>\<open>_reset_plugin_list\<close>, emit \<^verbatim>\<open>refresh_done\<close>, and last
  \<^verbatim>\<open>self._initialised = False\<close>.
\<close>

definition refresh :: "refresh_input \<Rightarrow> plugin_manager \<Rightarrow> plugin_manager \<times> event list" where
  "refresh inp pm =
     (case slot_delivery inp of
        Direct \<Rightarrow>
          (let (pm1, evs) = on_plugin_fetch_callback inp pm;
               pm2 = reset_plugin_list (enable_apply_button pm1)
           in (pm2\<lparr>initialised := False\<rparr>, [RefreshStarted] @ evs @ [RefreshDone]))
      | Queued \<Rightarrow>
          (let pm1 = (reset_plugin_list (enable_apply_button pm))\<lparr>initialised := False\<rparr>;
               (pm2, evs) = on_plugin_fetch_callback inp pm1
           in (pm2, [RefreshStarted, RefreshDone] @ evs)))"

text \<open>A sequence of \<^verbatim>\<open>refresh()\<close> calls on one instance, with the whole trace.\<close>

fun refreshes :: "refresh_input list \<Rightarrow> plugin_manager \<Rightarrow> plugin_manager \<times> event list" where
  "refreshes [] pm = (pm, [])"
| "refreshes (inp # inps) pm =
     (let (pm1, evs1) = refresh inp pm;
          (pm2, evs2) = refreshes inps pm1
      in (pm2, evs1 @ evs2))"

fun is_auto_processing :: "event \<Rightarrow> bool" where
  "is_auto_processing (AutoProcessing n) = True"
| "is_auto_processing e = False"

text \<open>The number of refresh passes in which the auto install/update processing was invoked.\<close>

definition auto_processing_passes :: "event list \<Rightarrow> nat" where
  "auto_processing_passes evs = length (filter is_auto_processing evs)"

subsection \<open>Applying the user's selection\<close>

fun get_incompatible_plugin_names :: "installed_plugin list \<Rightarrow> string list" where
  "get_incompatible_plugin_names [] = []"
| "get_incompatible_plugin_names (plugin # rest) =
     (if incompatible plugin then name plugin # get_incompatible_plugin_names rest
      else get_incompatible_plugin_names rest)"

fun get_deprecated_plugin_names :: "installed_plugin list \<Rightarrow> string list" where
  "get_deprecated_plugin_names [] = []"
| "get_deprecated_plugin_names (plugin # rest) =
     (if deprecated plugin then name plugin # get_deprecated_plugin_names rest
      else get_deprecated_plugin_names rest)"

text \<open>
  The second half of \<^verbatim>\<open>_on_apply_changes\<close>: the prompt about deprecated plugins, then the
  emission of \<^verbatim>\<open>apply_changes\<close>. Any answer but Yes and No returns.
\<close>

definition deprecated_prompt :: "StandardButton \<Rightarrow> string list \<Rightarrow> string list \<Rightarrow> event list" where
  "deprecated_prompt answer incompatible_plugin_names deprecated_plugins =
     (if deprecated_plugins \<noteq> []
      then ConflictPrompt Deprecated deprecated_plugins #
           (if answer = Yes
            then [ApplyChanges (incompatible_plugin_names @ deprecated_plugins)]
            else if answer = No
            then [ApplyChanges (incompatible_plugin_names @ [])]
            else [])
      else [ApplyChanges (incompatible_plugin_names @ deprecated_plugins)])"

text \<open>
  \<^verbatim>\<open>_on_apply_changes\<close>, with the answers the user gives to the first and to the second
  message box (each is consulted only if its box is shown).
\<close>

definition on_apply_changes ::
  "StandardButton \<Rightarrow> StandardButton \<Rightarrow> installed_plugin list \<Rightarrow> event list"
where
  "on_apply_changes answer1 answer2 installed =
     (let incompatible_plugin_names = get_incompatible_plugin_names installed;
          deprecated_plugins = get_deprecated_plugin_names installed
      in if incompatible_plugin_names \<noteq> []
         then ConflictPrompt Incompatible incompatible_plugin_names #
              (if answer1 = Yes
               then deprecated_prompt answer2 incompatible_plugin_names deprecated_plugins
               else if answer1 = No
               then deprecated_prompt answer2 [] deprecated_plugins
               else [])
         else deprecated_prompt answer2 incompatible_plugin_names deprecated_plugins)"

text \<open>
  \<^verbatim>\<open>on_apply_changes_confirmed_callback\<close>. One \<^verbatim>\<open>try\<close> encloses both loops; the bare
  \<^verbatim>\<open>except\<close> emits \<^verbatim>\<open>installation_failed\<close> with the traceback. Each loop returns its
  events and, when a call raised, the traceback text. \<^verbatim>\<open>archive_legacy_plugin\<close> belongs to
  the list widget and is an argument like the processor.
\<close>

fun archive_loop :: "(string \<Rightarrow> process_result) \<Rightarrow> string list \<Rightarrow> event list \<times> string option" where
  "archive_loop archive [] = ([], None)"
| "archive_loop archive (plugin # rest) =
     (case archive plugin of
        Raises tb \<Rightarrow> ([], Some tb)
      | Returns \<Rightarrow> (let (evs, r) = archive_loop archive rest in (Archived plugin # evs, r)))"

fun apply_loop :: "(plugin_item \<Rightarrow> process_result) \<Rightarrow> plugin_item list \<Rightarrow> event list \<times> string option" where
  "apply_loop process [] = ([], None)"
| "apply_loop process (item # rest) =
     (if checked item
      then (case process item of
              Raises tb \<Rightarrow> ([InstallationInProgress item], Some tb)
            | Returns \<Rightarrow>
                (let (evs, r) = apply_loop process rest
                 in (InstallationInProgress item # Processed item # evs, r)))
      else apply_loop process rest)"

definition on_apply_changes_confirmed_callback ::
  "(string \<Rightarrow> process_result) \<Rightarrow> (plugin_item \<Rightarrow> process_result) \<Rightarrow> string list
     \<Rightarrow> plugin_manager \<Rightarrow> plugin_manager \<times> event list"
where
  "on_apply_changes_confirmed_callback archive process archive_plugins pm =
     (let (evs1, r1) = archive_loop archive archive_plugins
      in case r1 of
           Some tb \<Rightarrow> (pm, InstallationStarted # evs1 @ [InstallationFailed tb])
         | None \<Rightarrow>
             (let (evs2, r2) = apply_loop process (plugin_model pm)
              in case r2 of
                   Some tb \<Rightarrow> (pm, InstallationStarted # evs1 @ evs2 @ [InstallationFailed tb])
                 | None \<Rightarrow>
                     (reset_plugin_list pm,
                      InstallationStarted # evs1 @ evs2 @
                        [InstallationDone, UsageTracked (plugins_to_install pm)])))"

text \<open>
  The entries that got an outcome in a trace: the processor returned for them
  (\<open>Processed\<close>) or their failure was reported at the entry (\<open>EntryFailed\<close>).
\<close>

fun outcome_of :: "event \<Rightarrow> plugin_item option" where
  "outcome_of (Processed item) = Some item"
| "outcome_of (EntryFailed item msg) = Some item"
| "outcome_of e = None"

definition outcomes :: "event list \<Rightarrow> plugin_item list" where
  "outcomes evs = List.map_filter outcome_of evs"

text \<open>The entries the apply path started on (\<^verbatim>\<open>installation_in_progress\<close> was emitted).\<close>

fun started_of :: "event \<Rightarrow> plugin_item option" where
  "started_of (InstallationInProgress item) = Some item"
| "started_of e = None"

definition started :: "event list \<Rightarrow> plugin_item list" where
  "started evs = List.map_filter started_of evs"

text \<open>The checked rows up to and including the first one on which the processor raises.\<close>

fun until_first_failure :: "(plugin_item \<Rightarrow> process_result) \<Rightarrow> plugin_item list \<Rightarrow> plugin_item list" where
  "until_first_failure process [] = []"
| "until_first_failure process (item # rest) =
     (if process item = Returns then item # until_first_failure process rest else [item])"


fun is_conflict_prompt :: "event \<Rightarrow> bool" where
  "is_conflict_prompt (ConflictPrompt k ns) = True"
| "is_conflict_prompt e = False"

subsection \<open>Sample plugins and passes\<close>

definition pluginA :: plugin_item where
  "pluginA =
     \<lparr>plugin_status = NEW, plugin_name = ''pluginA'', plugin_version = ''1.0.0'',
      checked = True\<rparr>"

definition pluginB :: plugin_item where
  "pluginB =
     \<lparr>plugin_status = UPDATE, plugin_name = ''pluginB'', plugin_version = ''2.1.0'',
      checked = True\<rparr>"

text \<open>A processor that raises on the plugin of the given name and returns on the others.\<close>

definition fails_on :: "string \<Rightarrow> plugin_item \<Rightarrow> process_result" where
  "fails_on n item = (if plugin_name item = n then Raises ''disk full'' else Returns)"

text \<open>
  A refresh pass that finds no installed plugin and one downloadable plugin whose
  installation fails, so that the next pass finds it again.
\<close>

definition startup_pass :: "delivery \<Rightarrow> refresh_input" where
  "startup_pass d =
     \<lparr>fetched = [], populated = [pluginA], downloadable_plugin_count = 1,
      processor = fails_on ''pluginA'', restart_answer = No, disable_startup_widget = False,
      slot_delivery = d\<rparr>"

subsection \<open>The launch hook: \<^verbatim>\<open>append_path\<close>\<close>

text \<open>
  The environment is a dictionary from variable names to strings. \<^verbatim>\<open>os.pathsep\<close> depends
  on the platform and is a parameter. \<^verbatim>\<open>environment[key]\<close> raising \<^verbatim>\<open>KeyError\<close> is the
  \<open>None\<close> branch; \<^verbatim>\<open>sep.join([a, b])\<close> is \<open>a @ sep @ b\<close>.
\<close>

definition append_path ::
  "string \<Rightarrow> string \<Rightarrow> string \<Rightarrow> (string \<rightharpoonup> string) \<Rightarrow> (string \<rightharpoonup> string)"
where
  "append_path pathsep path key environment =
     (case environment key of
        Some old \<Rightarrow> environment(key \<mapsto> old @ pathsep @ path)
      | None \<Rightarrow> environment(key \<mapsto> path))"

subsection \<open>Startup: the update check of \<^verbatim>\<open>main_connect\<close>\<close>

text \<open>
  A raised Python exception. \<^verbatim>\<open>except Exception\<close> catches the instances of
  \<^verbatim>\<open>Exception\<close> and its subclasses (network, parsing, key and type errors); it does not
  catch \<^verbatim>\<open>KeyboardInterrupt\<close>, \<^verbatim>\<open>SystemExit\<close> or \<^verbatim>\<open>GeneratorExit\<close>, which derive
  from \<^verbatim>\<open>BaseException\<close> only. The string is \<^verbatim>\<open>str(e)\<close>.
\<close>

datatype exn = Exception string | BaseExceptionOnly string

text \<open>
  The dictionary returned by \<^verbatim>\<open>check_connect_version_update\<close>, a function of
  \<^verbatim>\<open>ftrack_connect.utils.plugin\<close> that is not among the sources. \<^verbatim>\<open>main_connect\<close> reads
  the keys \<^verbatim>\<open>'has_update'\<close> and \<^verbatim>\<open>'message'\<close>; an absent key (\<open>None\<close>) makes the
  subscript raise \<^verbatim>\<open>KeyError\<close>.
\<close>

record update_info =
  has_update :: "bool option"
  message :: "string option"

record namespace =
  skip_version_check :: bool
  silent :: bool
  allow_multiple :: bool

datatype log_record = Debug string | Info string | Warning string | Error string

definition subscript :: "string \<Rightarrow> 'a option \<Rightarrow> exn + 'a" where
  "subscript key v = (case v of None \<Rightarrow> Inl (Exception (''KeyError: '' @ key)) | Some x \<Rightarrow> Inr x)"

text \<open>
  The body of the \<^verbatim>\<open>try\<close> block (lines 106 to 127): the import of \<^verbatim>\<open>__version__\<close> and
  the call of the checker may raise, as may the two subscripts. The result is the log
  written so far and either the exception or the value of \<^verbatim>\<open>_pending_update_info\<close>,
  which is assigned by the last statement of one branch only.
\<close>

definition update_check_body ::
  "namespace \<Rightarrow> (exn + string) \<Rightarrow> (string \<Rightarrow> exn + update_info)
     \<Rightarrow> log_record list \<times> (exn + update_info option)"
where
  "update_check_body ns version_import check_connect_version_update =
     (case version_import of
        Inl e \<Rightarrow> ([], Inl e)
      | Inr v \<Rightarrow>
          (let log1 = [Debug (''Checking for Connect updates (current version: '' @ v @ '')'')]
           in case check_connect_version_update v of
                Inl e \<Rightarrow> (log1, Inl e)
              | Inr info \<Rightarrow>
                  (case subscript ''has_update'' (has_update info) of
                     Inl e \<Rightarrow> (log1, Inl e)
                   | Inr has \<Rightarrow>
                       (case subscript ''message'' (message info) of
                          Inl e \<Rightarrow> (log1, Inl e)
                        | Inr msg \<Rightarrow>
                            (if has
                             then (if \<not> silent ns
                                   then (log1 @ [Warning msg], Inr (Some info))
                                   else (log1 @ [Warning msg,
                                           Info (''Update available but running in silent mode: '' @ msg)],
                                         Inr None))
                             else (log1 @ [Debug msg], Inr None))))))"

text \<open>
  The \<^verbatim>\<open>if not namespace.skip_version_check\<close> statement with its handler
  \<^verbatim>\<open>except Exception as e: logger.debug(...)\<close>. \<open>Inl\<close>: the exception leaves
  \<^verbatim>\<open>main_connect\<close>. \<open>Inr\<close>: startup goes on with this \<^verbatim>\<open>_pending_update_info\<close> and log.
\<close>

definition update_check ::
  "namespace \<Rightarrow> (exn + string) \<Rightarrow> (string \<Rightarrow> exn + update_info)
     \<Rightarrow> exn + (update_info option \<times> log_record list)"
where
  "update_check ns version_import check_connect_version_update =
     (if \<not> skip_version_check ns
      then (case update_check_body ns version_import check_connect_version_update of
              (log, Inr pending) \<Rightarrow> Inr (pending, log)
            | (log, Inl (Exception msg)) \<Rightarrow>
                Inr (None, log @ [Debug (''Error checking for updates: '' @ msg)])
            | (log, Inl (BaseExceptionOnly msg)) \<Rightarrow> Inl (BaseExceptionOnly msg))
      else Inr (None, []))"

text \<open>
  The rest of \<^verbatim>\<open>main_connect\<close> as far as it depends on the update check: the steps taken
  after the check. The single-instance lock raises \<^verbatim>\<open>SystemExit(1)\<close> when the lock file is
  held; \<^verbatim>\<open>show_update_dialog\<close> is called when \<^verbatim>\<open>_pending_update_info\<close> is set.
\<close>

datatype startup_step =
    CreateTargetPluginDirectory
  | AcquireSingleInstance
  | ConstructApplication
  | HideWindow
  | ShowUpdateDialog update_info
  | ExecApplication

definition continue_startup :: "namespace \<Rightarrow> bool \<Rightarrow> update_info option \<Rightarrow> exn + startup_step list" where
  "continue_startup ns lock_held pending =
     (if \<not> allow_multiple ns \<and> lock_held then Inl (BaseExceptionOnly ''SystemExit(1)'')
      else Inr ([CreateTargetPluginDirectory] @
                (if \<not> allow_multiple ns then [AcquireSingleInstance] else []) @
                [ConstructApplication] @
                (if silent ns then [HideWindow] else []) @
                (case pending of Some info \<Rightarrow> [ShowUpdateDialog info] | None \<Rightarrow> []) @
                [ExecApplication]))"

definition main_connect ::
  "namespace \<Rightarrow> (exn + string) \<Rightarrow> (string \<Rightarrow> exn + update_info) \<Rightarrow> bool
     \<Rightarrow> exn + startup_step list"
where
  "main_connect ns version_import check_connect_version_update lock_held =
     (case update_check ns version_import check_connect_version_update of
        Inl e \<Rightarrow> Inl e
      | Inr (pending, log) \<Rightarrow> continue_startup ns lock_held pending)"

text \<open>A checker that reports that no update is available.\<close>

definition no_update :: "string \<Rightarrow> string \<Rightarrow> exn + update_info" where
  "no_update msg v = Inr \<lparr>has_update = Some False, message = Some msg\<rparr>"

subsection \<open>Self-update download\<close>

text \<open>
  What \<^verbatim>\<open>requests.get(url, stream=True)\<close> gives: a connection error, or a response with
  its status, its \<^verbatim>\<open>content-length\<close> header and the chunks that \<^verbatim>\<open>iter_content\<close>
  yields, where the stream may break with an error at any point. Chunks are byte strings.
\<close>

datatype header = Absent | Length nat | Malformed














subsection \<open>Version comparison\<close>












subsection \<open>Release notes\<close>
































section \<open>Theorems\<close>

subsection \<open>Selection and count agree\<close>

lemma count_loop_filter:
  "count_loop di du model c =
     c + length (filter (\<lambda>i. selected di du (plugin_status i)) model)"
proof (induction model arbitrary: c)
  case Nil
  show ?case by simp
next
  case (Cons item rest)
  show ?case
    by (cases "plugin_status item") (simp_all add: Cons.IH)
qed

lemma select_loop_items:
  "map fst (select_loop installed di du model acc) =
     map fst acc @ filter (\<lambda>i. selected di du (plugin_status i)) model"
proof (induction model arbitrary: acc)
  case Nil
  show ?case by simp
next
  case (Cons item rest)
  show ?case
    by (cases "plugin_status item") (simp_all add: Cons.IH Let_def)
qed

text \<open>
  C10. For every model and every pair of flags, the count returned by
  \<^verbatim>\<open>_count_plugins_to_process\<close> is the length of the \<^verbatim>\<open>plugins_to_process\<close> list built by
  \<^verbatim>\<open>_on_auto_install_update_callback\<close>, and the items of that list are exactly, in model
  order, the NEW entries when \<open>do_install\<close>, the UPDATE entries when \<open>do_update\<close> and the
  DOWNLOAD entries when \<open>do_install\<close>.
\<close>

theorem count_matches_plugins_to_process:
  "count_plugins_to_process do_install do_update model =
     length (plugins_to_process installed do_install do_update model)
   \<and> map fst (plugins_to_process installed do_install do_update model) =
     filter (\<lambda>i. selected do_install do_update (plugin_status i)) model"
proof -
  have items: "map fst (plugins_to_process installed do_install do_update model) =
      filter (\<lambda>i. selected do_install do_update (plugin_status i)) model"
    by (simp add: plugins_to_process_def select_loop_items)
  have "length (plugins_to_process installed do_install do_update model) =
      length (map fst (plugins_to_process installed do_install do_update model))"
    by simp
  also have "\<dots> = length (filter (\<lambda>i. selected do_install do_update (plugin_status i)) model)"
    by (simp only: items)
  finally have "count_plugins_to_process do_install do_update model =
      length (plugins_to_process installed do_install do_update model)"
    by (simp add: count_plugins_to_process_def count_loop_filter)
  with items show ?thesis by simp
qed

subsection \<open>The launch hook\<close>

text \<open>
  C9. \<^verbatim>\<open>append_path(p, k, env)\<close> returns the mapping with \<open>k\<close> bound to \<open>p\<close> when \<open>k\<close> was
  absent, and to the previous value joined with \<open>p\<close> by \<^verbatim>\<open>os.pathsep\<close> when it was present;
  every other key keeps its binding.
\<close>

theorem append_path_frame:
  "append_path pathsep p k env k =
     (case env k of None \<Rightarrow> Some p | Some old \<Rightarrow> Some (old @ pathsep @ p))
   \<and> (\<forall>k'. k' \<noteq> k \<longrightarrow> append_path pathsep p k env k' = env k')"
  by (simp add: append_path_def split: option.splits)

theorem append_path_frame_witness:
  "append_path '':'' ''/opt/location'' ''PYTHONPATH'' [''PYTHONPATH'' \<mapsto> ''/usr/lib'', ''HOME'' \<mapsto> ''/root'']
     ''PYTHONPATH'' = Some ''/usr/lib:/opt/location''
   \<and> append_path '':'' ''/opt/location'' ''PYTHONPATH'' [''PYTHONPATH'' \<mapsto> ''/usr/lib'', ''HOME'' \<mapsto> ''/root'']
     ''HOME'' = Some ''/root''
   \<and> append_path '':'' ''/opt/location'' ''PYTHONPATH'' Map.empty ''PYTHONPATH'' = Some ''/opt/location''"
  using append_path_frame [of "'':''" "''/opt/location''" "''PYTHONPATH''"
      "[''PYTHONPATH'' \<mapsto> ''/usr/lib'', ''HOME'' \<mapsto> ''/root'']"]
    append_path_frame [of "'':''" "''/opt/location''" "''PYTHONPATH''" Map.empty]
  by simp

subsection \<open>The auto-processing loop\<close>

lemma process_entries_count:
  "fst (process_entries process t es c) = c + length es"
  by (induction es arbitrary: c) (auto simp: Let_def case_prod_beta)

lemma outcomes_append: "outcomes (xs @ ys) = outcomes xs @ outcomes ys"
  by (simp add: outcomes_def List.map_filter_def)

lemma process_entries_outcomes:
  "outcomes (snd (process_entries process t es c)) = map fst es"
proof (induction es arbitrary: c)
  case Nil
  show ?case by (simp add: outcomes_def List.map_filter_def)
next
  case (Cons e es)
  obtain item action pname vi where e: "e = (item, action, pname, vi)"
    by (cases e) auto
  have now: "outcomes (case process item of
      Returns \<Rightarrow> [Processed item, Progress n t action info]
    | Raises msg \<Rightarrow> [EntryFailed item msg]) = [item]" for n info
    by (cases "process item") (simp_all add: outcomes_def List.map_filter_def)
  show ?case
    using Cons.IH [of "c + 1"] now
    by (simp add: e Let_def outcomes_append case_prod_beta)
qed

lemma process_entries_failed:
  "(EntryFailed item msg \<in> set (snd (process_entries process t es c))) =
     (item \<in> fst ` set es \<and> process item = Raises msg)"
proof (induction es arbitrary: c)
  case Nil
  show ?case by simp
next
  case (Cons e es)
  obtain i action pname vi where e: "e = (i, action, pname, vi)"
    by (cases e) auto
  show ?case
    using Cons.IH [of "c + 1"]
    by (cases "process i") (auto simp: e Let_def case_prod_beta)
qed


lemma process_entries_no_auto:
  "filter is_auto_processing (snd (process_entries process t es c)) = []"
proof (induction es arbitrary: c)
  case Nil
  show ?case by simp
next
  case (Cons e es)
  obtain item action pname vi where e: "e = (item, action, pname, vi)"
    by (cases e) auto
  show ?case
    using Cons.IH [of "c + 1"]
    by (cases "process item") (simp_all add: e Let_def case_prod_beta)
qed

lemma auto_outcomes:
  "outcomes (snd (on_auto_install_update_callback process answer di du pm)) =
     map fst (plugins_to_process (installed_plugins pm) di du (plugin_model pm))"
proof -
  let ?ptp = "plugins_to_process (installed_plugins pm) di du (plugin_model pm)"
  show ?thesis
  proof (cases "?ptp = []")
    case True
    then show ?thesis
      by (simp add: on_auto_install_update_callback_def outcomes_def List.map_filter_def)
  next
    case False
    have tail: "outcomes (Summary n t # rest) = outcomes rest" for n t rest
      by (simp add: outcomes_def List.map_filter_def)
    have msg: "outcomes (show_auto_install_restart_message n t ps answer) = []" for n t ps
      by (simp add: show_auto_install_restart_message_def outcomes_def List.map_filter_def)
    have nil: "outcomes [] = []"
      by (simp add: outcomes_def List.map_filter_def)
    from False show ?thesis
      by (simp add: on_auto_install_update_callback_def Let_def case_prod_beta
          outcomes_append tail msg nil process_entries_outcomes)
  qed
qed

lemma auto_failed:
  "(EntryFailed item msg \<in> set (snd (on_auto_install_update_callback process answer di du pm))) =
     (item \<in> fst ` set (plugins_to_process (installed_plugins pm) di du (plugin_model pm))
      \<and> process item = Raises msg)"
proof (cases "plugins_to_process (installed_plugins pm) di du (plugin_model pm) = []")
  case True
  then show ?thesis
    by (simp add: on_auto_install_update_callback_def)
next
  case False
  then show ?thesis
    by (simp add: on_auto_install_update_callback_def Let_def case_prod_beta
        show_auto_install_restart_message_def process_entries_failed)
qed

lemma final_count:
  "final_processed_count process di du pm =
     length (plugins_to_process (installed_plugins pm) di du (plugin_model pm))"
  by (simp add: final_processed_count_def Let_def process_entries_count)



subsection \<open>The apply loop\<close>

lemma apply_loop_started:
  "started (fst (apply_loop process items)) =
     until_first_failure process (filter checked items)"
proof (induction items)
  case Nil
  show ?case by (simp add: started_def List.map_filter_def)
next
  case (Cons item rest)
  show ?case
  proof (cases "checked item")
    case False
    then show ?thesis using Cons.IH by simp
  next
    case True
    show ?thesis
    proof (cases "process item")
      case Returns
      with True Cons.IH show ?thesis
        by (simp add: started_def List.map_filter_def case_prod_beta)
    next
      case (Raises tb)
      with True show ?thesis
        by (simp add: started_def List.map_filter_def)
    qed
  qed
qed

lemma apply_loop_result:
  "(snd (apply_loop process items) = None) =
     list_all (\<lambda>i. process i = Returns) (filter checked items)"
proof (induction items)
  case Nil
  show ?case by simp
next
  case (Cons item rest)
  show ?case
    using Cons.IH by (cases "process item") (simp_all add: case_prod_beta)
qed

lemma archive_loop_started: "started (fst (archive_loop archive aps)) = []"
proof (induction aps)
  case Nil
  show ?case by (simp add: started_def List.map_filter_def)
next
  case (Cons a aps)
  then show ?case
    by (cases "archive a") (simp_all add: started_def List.map_filter_def case_prod_beta)
qed

lemma archive_loop_not_done: "InstallationDone \<notin> set (fst (archive_loop archive aps))"
proof (induction aps)
  case Nil
  show ?case by simp
next
  case (Cons a aps)
  then show ?case by (cases "archive a") (simp_all add: case_prod_beta)
qed

lemma archive_loop_not_failed: "InstallationFailed tb \<notin> set (fst (archive_loop archive aps))"
proof (induction aps)
  case Nil
  show ?case by simp
next
  case (Cons a aps)
  then show ?case by (cases "archive a") (simp_all add: case_prod_beta)
qed

lemma apply_loop_not_done: "InstallationDone \<notin> set (fst (apply_loop process items))"
proof (induction items)
  case Nil
  show ?case by simp
next
  case (Cons i items)
  then show ?case by (cases "process i") (simp_all add: case_prod_beta)
qed

lemma apply_loop_not_failed: "InstallationFailed tb \<notin> set (fst (apply_loop process items))"
proof (induction items)
  case Nil
  show ?case by simp
next
  case (Cons i items)
  then show ?case by (cases "process i") (simp_all add: case_prod_beta)
qed

lemma started_append: "started (xs @ ys) = started xs @ started ys"
  by (simp add: started_def List.map_filter_def)

lemma started_simps:
  "started [] = []"
  "started (InstallationStarted # evs) = started evs"
  "started (InstallationFailed tb # evs) = started evs"
  "started (InstallationDone # evs) = started evs"
  "started (UsageTracked ps # evs) = started evs"
  by (simp_all add: started_def List.map_filter_def)

lemma apply_started:
  "started (snd (on_apply_changes_confirmed_callback archive process aps pm)) =
     (if snd (archive_loop archive aps) = None
      then until_first_failure process (filter checked (plugin_model pm)) else [])"
  by (cases "snd (archive_loop archive aps)"; cases "snd (apply_loop process (plugin_model pm))")
    (simp_all add: on_apply_changes_confirmed_callback_def case_prod_beta started_append
      started_simps archive_loop_started apply_loop_started)

lemma apply_done:
  "(InstallationDone \<in> set (snd (on_apply_changes_confirmed_callback archive process aps pm))) =
     (snd (archive_loop archive aps) = None
      \<and> list_all (\<lambda>i. process i = Returns) (filter checked (plugin_model pm)))"
  using apply_loop_result [of process "plugin_model pm"]
  by (cases "snd (archive_loop archive aps)"; cases "snd (apply_loop process (plugin_model pm))")
    (simp_all add: on_apply_changes_confirmed_callback_def case_prod_beta
      archive_loop_not_done archive_loop_not_failed apply_loop_not_done apply_loop_not_failed)

lemma apply_failed:
  "(\<exists>tb. InstallationFailed tb
        \<in> set (snd (on_apply_changes_confirmed_callback archive process aps pm))) =
     (\<not> (snd (archive_loop archive aps) = None
      \<and> list_all (\<lambda>i. process i = Returns) (filter checked (plugin_model pm))))"
  using apply_loop_result [of process "plugin_model pm"]
  by (cases "snd (archive_loop archive aps)"; cases "snd (apply_loop process (plugin_model pm))")
    (simp_all add: on_apply_changes_confirmed_callback_def case_prod_beta
      archive_loop_not_done archive_loop_not_failed apply_loop_not_done apply_loop_not_failed)

subsection \<open>Partial failure of a batch\<close>

text \<open>
  C2, as stated, fails on the apply path: with two checked rows of which the first makes the
  processor raise, \<^verbatim>\<open>on_apply_changes_confirmed_callback\<close> emits \<^verbatim>\<open>installation_failed\<close>
  and stops; the second row is never started and gets no outcome.
\<close>

theorem apply_path_aborts_on_first_failure:
  "snd (on_apply_changes_confirmed_callback (\<lambda>n. Returns) (fails_on ''pluginA'') []
      (init_plugin_manager\<lparr>plugin_model := [pluginA, pluginB]\<rparr>)) =
     [InstallationStarted, InstallationInProgress pluginA, InstallationFailed ''disk full'']
   \<and> pluginB \<notin> set (started
        (snd (on_apply_changes_confirmed_callback (\<lambda>n. Returns) (fails_on ''pluginA'') []
          (init_plugin_manager\<lparr>plugin_model := [pluginA, pluginB]\<rparr>))))
   \<and> pluginB \<notin> set (outcomes
        (snd (on_apply_changes_confirmed_callback (\<lambda>n. Returns) (fails_on ''pluginA'') []
          (init_plugin_manager\<lparr>plugin_model := [pluginA, pluginB]\<rparr>))))"
  by (simp add: on_apply_changes_confirmed_callback_def init_plugin_manager_def pluginA_def
      pluginB_def fails_on_def started_def outcomes_def List.map_filter_def)

text \<open>
  C2, amended. On the auto-processing path every entry of the batch gets exactly one
  outcome, in batch order, whatever the processor does on the other entries, and an entry
  is reported as failed exactly when the processor raised on it. On the user-confirmed
  apply path the checked rows are processed in order up to and including the first one on
  which the processor raises; that failure ends the batch with \<^verbatim>\<open>installation_failed\<close>,
  and \<^verbatim>\<open>installation_done\<close> is emitted exactly when archiving and every checked row
  succeeded.
\<close>

theorem batch_failure_policy:
  "outcomes (snd (on_auto_install_update_callback process answer do_install do_update pm)) =
     map fst (plugins_to_process (installed_plugins pm) do_install do_update (plugin_model pm))
   \<and> (\<forall>item msg.
        (EntryFailed item msg
           \<in> set (snd (on_auto_install_update_callback process answer do_install do_update pm))) =
        (item \<in> fst ` set (plugins_to_process (installed_plugins pm) do_install do_update
                             (plugin_model pm))
         \<and> process item = Raises msg))
   \<and> started (snd (on_apply_changes_confirmed_callback archive process archive_plugins pm)) =
       (if snd (archive_loop archive archive_plugins) = None
        then until_first_failure process (filter checked (plugin_model pm)) else [])
   \<and> (InstallationDone
         \<in> set (snd (on_apply_changes_confirmed_callback archive process archive_plugins pm))) =
       (snd (archive_loop archive archive_plugins) = None
        \<and> list_all (\<lambda>i. process i = Returns) (filter checked (plugin_model pm)))
   \<and> (\<exists>tb. InstallationFailed tb
         \<in> set (snd (on_apply_changes_confirmed_callback archive process archive_plugins pm))) =
       (\<not> (snd (archive_loop archive archive_plugins) = None
        \<and> list_all (\<lambda>i. process i = Returns) (filter checked (plugin_model pm))))"
  using auto_outcomes [of process answer do_install do_update pm]
    auto_failed [of _ _ process answer do_install do_update pm]
    apply_started [of archive process archive_plugins pm]
    apply_done [of archive process archive_plugins pm]
    apply_failed [of archive process archive_plugins pm]
  by blast

theorem batch_failure_policy_witness:
  "outcomes (snd (on_auto_install_update_callback (fails_on ''pluginA'') No True True
      (init_plugin_manager\<lparr>plugin_model := [pluginA, pluginB]\<rparr>))) = [pluginA, pluginB]
   \<and> started (snd (on_apply_changes_confirmed_callback (\<lambda>n. Returns) (fails_on ''pluginA'') []
      (init_plugin_manager\<lparr>plugin_model := [pluginA, pluginB]\<rparr>))) = [pluginA]
   \<and> started (snd (on_apply_changes_confirmed_callback (\<lambda>n. Returns) (fails_on ''pluginB'') []
      (init_plugin_manager\<lparr>plugin_model := [pluginA, pluginB]\<rparr>))) = [pluginA, pluginB]"
  using batch_failure_policy [of "fails_on ''pluginA''" No True True
      "init_plugin_manager\<lparr>plugin_model := [pluginA, pluginB]\<rparr>" "\<lambda>n. Returns" "[]"]
    batch_failure_policy [of "fails_on ''pluginB''" No True True
      "init_plugin_manager\<lparr>plugin_model := [pluginA, pluginB]\<rparr>" "\<lambda>n. Returns" "[]"]
  by (simp add: init_plugin_manager_def plugins_to_process_def pluginA_def pluginB_def
      fails_on_def)

subsection \<open>The restart prompt\<close>



subsection \<open>The gate is reopened by every refresh\<close>

lemma callback_no_auto:
  "filter is_auto_processing
     (snd (on_auto_install_update_callback process answer di du pm)) = []"
  by (simp add: on_auto_install_update_callback_def Let_def case_prod_beta
      process_entries_no_auto show_auto_install_restart_message_def)

lemma fetch_callback_passes:
  "auto_processing_passes (snd (on_plugin_fetch_callback inp pm)) =
     (if \<not> initialised pm \<and> 0 < count_plugins_to_process True True (populated inp)
      then 1 else 0)"
  by (simp add: auto_processing_passes_def on_plugin_fetch_callback_def
      check_and_run_auto_operations_def Let_def case_prod_beta callback_no_auto)

lemma refresh_direct_reopens:
  "slot_delivery inp = Direct \<Longrightarrow> \<not> initialised (fst (refresh inp pm))"
  by (simp add: refresh_def Let_def case_prod_beta)

lemma refresh_direct_passes:
  "slot_delivery inp = Direct \<Longrightarrow>
   auto_processing_passes (snd (refresh inp pm)) =
     (if \<not> initialised pm \<and> 0 < count_plugins_to_process True True (populated inp)
      then 1 else 0)"
  using fetch_callback_passes [of inp pm]
  by (simp add: refresh_def Let_def case_prod_beta auto_processing_passes_def)

lemma passes_append:
  "auto_processing_passes (xs @ ys) = auto_processing_passes xs + auto_processing_passes ys"
  by (simp add: auto_processing_passes_def)

text \<open>
  When the callback runs inside \<^verbatim>\<open>emit\<close>, every refresh that finds something to process
  runs the auto-processing: the last statement of \<^verbatim>\<open>refresh\<close> has cleared the flag the
  pass before had set.
\<close>

lemma every_direct_refresh_fires:
  "list_all (\<lambda>inp. slot_delivery inp = Direct
       \<and> 0 < count_plugins_to_process True True (populated inp)) inps \<Longrightarrow>
   \<not> initialised pm \<Longrightarrow>
   auto_processing_passes (snd (refreshes inps pm)) = length inps"
proof (induction inps arbitrary: pm)
  case Nil
  show ?case by (simp add: auto_processing_passes_def)
next
  case (Cons inp inps)
  from Cons.prems have d: "slot_delivery inp = Direct"
    and w: "0 < count_plugins_to_process True True (populated inp)"
    and rest: "list_all (\<lambda>inp. slot_delivery inp = Direct
       \<and> 0 < count_plugins_to_process True True (populated inp)) inps"
    by simp_all
  have "auto_processing_passes (snd (refresh inp pm)) = 1"
    using refresh_direct_passes [OF d, of pm] w Cons.prems(2) by simp
  moreover have "auto_processing_passes (snd (refreshes inps (fst (refresh inp pm)))) =
      length inps"
    using Cons.IH [OF rest refresh_direct_reopens [OF d]] .
  ultimately show ?case
    by (simp add: case_prod_beta passes_append)
qed

text \<open>
  C1. The claim says that over any sequence of \<^verbatim>\<open>refresh()\<close> calls on one instance the
  auto install/update processing is invoked in at most one pass. The code evaluated on two
  refresh calls from the initial state, each finding the same plugin to install: the
  processing is invoked in both passes, whether the fetch callback runs inside
  \<^verbatim>\<open>emit\<close> or after \<^verbatim>\<open>refresh\<close> has returned, because \<^verbatim>\<open>refresh\<close> ends with
  \<^verbatim>\<open>self._initialised = False\<close>.
\<close>

theorem auto_processing_runs_in_two_passes:
  "auto_processing_passes
     (snd (refreshes [startup_pass Direct, startup_pass Direct] init_plugin_manager)) = 2
   \<and> auto_processing_passes
     (snd (refreshes [startup_pass Queued, startup_pass Queued] init_plugin_manager)) = 2"
  by (simp add: auto_processing_passes_def startup_pass_def init_plugin_manager_def refresh_def
      on_plugin_fetch_callback_def check_and_run_auto_operations_def
      on_auto_install_update_callback_def count_plugins_to_process_def plugins_to_process_def
      show_auto_install_restart_message_def reset_plugin_list_def enable_apply_button_def
      pluginA_def fails_on_def Let_def)

subsection \<open>The conflict prompts of the apply flow\<close>

text \<open>
  C6. When an installed plugin is marked incompatible or deprecated,
  \<^verbatim>\<open>_on_apply_changes\<close> opens with a conflict prompt. The whole trace is: the prompts
  shown (a three-way box for the incompatible plugins, then one for the deprecated ones),
  followed by one \<^verbatim>\<open>apply_changes\<close> emission, unless a box that was shown was answered
  with Cancel, in which case nothing is emitted. The emitted archive list holds the
  incompatible names when the first box was answered Yes (archive) and not when it was
  answered No (keep), and likewise the deprecated names for the second box.
\<close>

theorem apply_changes_three_way:
  "(list_ex (\<lambda>p. incompatible p \<or> deprecated p) installed \<longrightarrow>
      (\<exists>k ns rest. on_apply_changes answer1 answer2 installed = ConflictPrompt k ns # rest))
   \<and> (\<exists>prompts. list_all is_conflict_prompt prompts \<and>
        on_apply_changes answer1 answer2 installed =
          prompts @
          (if (get_incompatible_plugin_names installed \<noteq> [] \<and> answer1 = Cancel)
              \<or> (get_deprecated_plugin_names installed \<noteq> [] \<and> answer2 = Cancel)
           then []
           else [ApplyChanges
                  ((if answer1 = Yes then get_incompatible_plugin_names installed else []) @
                   (if answer2 = Yes then get_deprecated_plugin_names installed else []))]))
   \<and> get_incompatible_plugin_names installed = map name (filter incompatible installed)
   \<and> get_deprecated_plugin_names installed = map name (filter deprecated installed)"
proof -
  let ?inc = "get_incompatible_plugin_names installed"
  let ?dep = "get_deprecated_plugin_names installed"
  have ex: "list_ex (\<lambda>p. incompatible p \<or> deprecated p) installed \<Longrightarrow>
      ?inc \<noteq> [] \<or> ?dep \<noteq> []"
    by (induction installed) auto
  have first: "?inc \<noteq> [] \<or> ?dep \<noteq> [] \<Longrightarrow>
      \<exists>k ns rest. on_apply_changes answer1 answer2 installed = ConflictPrompt k ns # rest"
    by (auto simp: on_apply_changes_def deprecated_prompt_def Let_def)
  have shape: "\<exists>prompts. list_all is_conflict_prompt prompts \<and>
        on_apply_changes answer1 answer2 installed =
          prompts @
          (if (?inc \<noteq> [] \<and> answer1 = Cancel) \<or> (?dep \<noteq> [] \<and> answer2 = Cancel)
           then []
           else [ApplyChanges
                  ((if answer1 = Yes then ?inc else []) @ (if answer2 = Yes then ?dep else []))])"
  proof (cases "?inc = []")
    case True
    show ?thesis
    proof (cases "?dep = []")
      case True
      with \<open>?inc = []\<close> show ?thesis
        by (intro exI [of _ "[]"]) (simp add: on_apply_changes_def deprecated_prompt_def Let_def)
    next
      case False
      with \<open>?inc = []\<close> show ?thesis
        by (intro exI [of _ "[ConflictPrompt Deprecated ?dep]"])
          (cases answer2; simp add: on_apply_changes_def deprecated_prompt_def Let_def)
    qed
  next
    case False
    show ?thesis
    proof (cases "?dep = [] \<or> answer1 = Cancel")
      case True
      with \<open>?inc \<noteq> []\<close> show ?thesis
        by (intro exI [of _ "[ConflictPrompt Incompatible ?inc]"])
          (cases answer1; auto simp add: on_apply_changes_def deprecated_prompt_def Let_def)
    next
      case False
      with \<open>?inc \<noteq> []\<close> show ?thesis
        by (intro exI [of _ "[ConflictPrompt Incompatible ?inc, ConflictPrompt Deprecated ?dep]"])
          (cases answer1; cases answer2;
            simp add: on_apply_changes_def deprecated_prompt_def Let_def)
    qed
  qed
  have inc: "?inc = map name (filter incompatible installed)"
    by (induction installed) auto
  have dep: "?dep = map name (filter deprecated installed)"
    by (induction installed) auto
  from ex first shape inc dep show ?thesis by blast
qed

theorem apply_changes_three_way_witness:
  "on_apply_changes No Yes
      [\<lparr>name = ''pluginA'', version = Some ''1.0.0'', incompatible = True, deprecated = False\<rparr>]
     = [ConflictPrompt Incompatible [''pluginA''], ApplyChanges []]
   \<and> on_apply_changes Yes Yes
      [\<lparr>name = ''pluginA'', version = Some ''1.0.0'', incompatible = True, deprecated = False\<rparr>]
     = [ConflictPrompt Incompatible [''pluginA''], ApplyChanges [''pluginA'']]
   \<and> on_apply_changes Cancel Yes
      [\<lparr>name = ''pluginA'', version = Some ''1.0.0'', incompatible = True, deprecated = False\<rparr>]
     = [ConflictPrompt Incompatible [''pluginA'']]"
  using apply_changes_three_way [of
      "[\<lparr>name = ''pluginA'', version = Some ''1.0.0'', incompatible = True, deprecated = False\<rparr>]"
      No Yes]
    apply_changes_three_way [of
      "[\<lparr>name = ''pluginA'', version = Some ''1.0.0'', incompatible = True, deprecated = False\<rparr>]"
      Yes Yes]
    apply_changes_three_way [of
      "[\<lparr>name = ''pluginA'', version = Some ''1.0.0'', incompatible = True, deprecated = False\<rparr>]"
      Cancel Yes]
  by (simp add: on_apply_changes_def deprecated_prompt_def Let_def)

subsection \<open>The update check at startup\<close>

lemma update_check_only_base_propagates:
  "update_check ns version_import check = Inl e \<Longrightarrow> \<exists>m. e = BaseExceptionOnly m"
  by (cases "update_check_body ns version_import check")
    (auto simp: update_check_def split: if_splits sum.splits exn.splits)

text \<open>
  C8. When the update check raises an exception (an instance of \<^verbatim>\<open>Exception\<close>: import,
  network, parsing, key or type error), \<^verbatim>\<open>main_connect\<close> catches it, logs it at debug
  level after what the check had logged, and goes on with no update dialog pending: the
  rest of startup is what it is after a check that reports \<open>has_update = False\<close>. No
  instance of \<^verbatim>\<open>Exception\<close> ever leaves the update check.
\<close>

theorem update_check_fails_soft:
  "(\<not> skip_version_check ns
      \<and> snd (update_check_body ns version_import check) = Inl (Exception err) \<longrightarrow>
        update_check ns version_import check =
          Inr (None, fst (update_check_body ns version_import check)
                       @ [Debug (''Error checking for updates: '' @ err)])
        \<and> main_connect ns version_import check lock_held =
            main_connect ns (Inr v) (no_update msg) lock_held
        \<and> main_connect ns version_import check lock_held = continue_startup ns lock_held None)
   \<and> update_check ns version_import check \<noteq> Inl (Exception err')"
proof -
  have "update_check ns version_import check \<noteq> Inl (Exception err')"
    using update_check_only_base_propagates [of ns version_import check "Exception err'"]
    by auto
  moreover have "\<not> skip_version_check ns
      \<and> snd (update_check_body ns version_import check) = Inl (Exception err) \<longrightarrow>
        update_check ns version_import check =
          Inr (None, fst (update_check_body ns version_import check)
                       @ [Debug (''Error checking for updates: '' @ err)])
        \<and> main_connect ns version_import check lock_held =
            main_connect ns (Inr v) (no_update msg) lock_held
        \<and> main_connect ns version_import check lock_held = continue_startup ns lock_held None"
    by (cases "update_check_body ns version_import check")
      (simp add: update_check_def main_connect_def no_update_def update_check_body_def
        subscript_def)
  ultimately show ?thesis by blast
qed

theorem update_check_fails_soft_witness:
  "update_check \<lparr>skip_version_check = False, silent = False, allow_multiple = False\<rparr>
      (Inr ''24.5.0'') (\<lambda>v. Inl (Exception ''ConnectionError'')) =
     Inr (None, [Debug ''Checking for Connect updates (current version: 24.5.0)'',
                 Debug ''Error checking for updates: ConnectionError''])
   \<and> main_connect \<lparr>skip_version_check = False, silent = False, allow_multiple = False\<rparr>
      (Inr ''24.5.0'') (\<lambda>v. Inl (Exception ''ConnectionError'')) False =
     Inr [CreateTargetPluginDirectory, AcquireSingleInstance, ConstructApplication,
          ExecApplication]"
  using update_check_fails_soft [of
      "\<lparr>skip_version_check = False, silent = False, allow_multiple = False\<rparr>"
      "Inr ''24.5.0''" "\<lambda>v. Inl (Exception ''ConnectionError'')" "''ConnectionError''"
      False "''24.5.0''" "''up to date''" "''x''"]
  by (simp add: update_check_body_def continue_startup_def main_connect_def update_check_def
      no_update_def subscript_def)

subsection \<open>The download and its cancellation\<close>












subsection \<open>Version comparison\<close>








subsection \<open>Release notes\<close>












































end
